theory Spec2Isabelle
  imports Complex_Main
begin

section \<open>Actions, errors and the objects the wrappers read and write\<close>

text \<open>
  Modelled from the spec: the action type and \<open>flip_action\<close> are imported by
  \<^verbatim>\<open>strategy_transformers.py\<close> from \<^verbatim>\<open>axelrod/actions.py\<close>, which is not among
  the sources. The spec describes a two-valued action type (Cooperate, Defect) with a flip
  operation exchanging the two values.
\<close>

datatype action = C | D

fun flip_action :: "action \<Rightarrow> action" where
  "flip_action C = D"
| "flip_action D = C"

text \<open>The Python exceptions that the modelled code can raise.\<close>

datatype py_error = KeyError | IndexError | AttributeError | TypeError

text \<open>
  A player instance, as far as the wrappers look at it: its own \<open>history\<close>, the dictionary
  \<open>tournament_attributes\<close>, and the attribute \<open>_recorded_history\<close>, which an instance
  has only once \<open>history_track_wrapper\<close> has set it (\<open>None\<close>: the attribute is absent).
\<close>

record player =
  history :: "action list"
  tournament_attributes :: "string \<rightharpoonup> int"
  recorded_history :: "action list option"

text \<open>
  A \<open>RetaliationWrapper\<close> object has one field. The objects live in a store and are
  referred to by address, since one such object is reached from every player instance of
  the class whose \<open>strategy\<close> closes over it.
\<close>

record RetaliationWrapper =
  is_retaliating :: bool

text \<open>
  Everything outside the two players that a decision reads or writes: the store of
  \<open>RetaliationWrapper\<close> objects (an address is an index into it) and the source behind
  \<open>random.random()\<close>, a sequence of draws with the position of the next one.
  Floats are only compared here, never computed with, so a draw is a \<open>real\<close>.
\<close>

record world =
  wrapper_objs :: "RetaliationWrapper list"
  rng_seq :: "nat \<Rightarrow> real"
  rng_pos :: nat

definition random_random :: "world \<Rightarrow> real \<times> world" where
  "random_random w = (rng_seq w (rng_pos w), w\<lparr>rng_pos := Suc (rng_pos w)\<rparr>)"

text \<open>
  A decision either raises or returns an action together with the world and the deciding
  player as the call left them.
\<close>

type_synonym outcome = "py_error + action \<times> world \<times> player"

text \<open>
  A strategy wrapper with its extra arguments already supplied:
  \<open>strategy_wrapper(self, opponent, proposed_action, *wrapper_args)\<close>.
\<close>

type_synonym wrapper = "world \<Rightarrow> player \<Rightarrow> player \<Rightarrow> action \<Rightarrow> outcome"

text \<open>
  Indexing a Python list, \<open>xs[i]\<close>: an index from \<open>0\<close> to \<open>len(xs) - 1\<close> reads
  from the front, an index from \<open>-len(xs)\<close> to \<open>-1\<close> reads from the back, and any
  other index raises \<open>IndexError\<close>.
\<close>

definition py_getitem :: "'a list \<Rightarrow> int \<Rightarrow> py_error + 'a" where
  "py_getitem xs i =
     (if 0 \<le> i \<and> i < int (length xs) then Inr (xs ! nat i)
      else if i < 0 \<and> 0 \<le> int (length xs) + i then Inr (xs ! nat (int (length xs) + i))
      else Inl IndexError)"

section \<open>Classes\<close>

text \<open>
  A class has its \<open>__name__\<close>, at most one base class, and its own \<open>__dict__\<close>.
  An attribute value is a string, a \<open>staticmethod\<close> (which receives the opponent only), a
  plain function (which receives \<open>self\<close> and the opponent), or something else.
\<close>

datatype attr =
    Str_attr string
  | Staticmethod_attr "world \<Rightarrow> player \<Rightarrow> py_error + action \<times> world"
  | Function_attr "world \<Rightarrow> player \<Rightarrow> player \<Rightarrow> outcome"
  | Other_attr nat

datatype pyclass =
  PyClass (cls_name: string) (cls_base: "pyclass option") (cls_dict: "string \<Rightarrow> attr option")

text \<open>\<open>cls.k\<close>: the class's own dictionary first, then its base classes.\<close>

fun class_getattr :: "pyclass \<Rightarrow> string \<Rightarrow> py_error + attr" where
  "class_getattr (PyClass n b d) k =
     (case d k of
        Some v \<Rightarrow> Inr v
      | None \<Rightarrow> (case b of None \<Rightarrow> Inl AttributeError | Some base \<Rightarrow> class_getattr base k))"

text \<open>
  \<open>self.strategy(opponent)\<close> on an instance \<open>self\<close> of class \<open>cls\<close>: the decision
  operation of the agent.
\<close>

definition decide :: "pyclass \<Rightarrow> world \<Rightarrow> player \<Rightarrow> player \<Rightarrow> outcome" where
  "decide cls w self opponent =
     (case class_getattr cls ''strategy'' of
        Inl e \<Rightarrow> Inl e
      | Inr (Staticmethod_attr f) \<Rightarrow>
          (case f w opponent of Inl e \<Rightarrow> Inl e | Inr (a, w') \<Rightarrow> Inr (a, w', self))
      | Inr (Function_attr g) \<Rightarrow> g w self opponent
      | Inr _ \<Rightarrow> Inl TypeError)"

section \<open>The transformer factory\<close>

text \<open>
  The function \<open>strategy\<close> that \<open>decorate\<close> defines; \<open>PlayerClass\<close> and
  \<open>strategy_wrapper\<close> are the variables it closes over.
\<close>

definition strategy :: "pyclass \<Rightarrow> wrapper \<Rightarrow> world \<Rightarrow> player \<Rightarrow> player \<Rightarrow> outcome" where
  "strategy PlayerClass strategy_wrapper w self opponent =
     (case cls_dict PlayerClass ''strategy'' of
        None \<Rightarrow> Inl KeyError
      | Some (Staticmethod_attr f) \<Rightarrow>
          (case f w opponent of
             Inl e \<Rightarrow> Inl e
           | Inr (proposed_action, w') \<Rightarrow> strategy_wrapper w' self opponent proposed_action)
      | Some (Function_attr g) \<Rightarrow>
          (case g w self opponent of
             Inl e \<Rightarrow> Inl e
           | Inr (proposed_action, w', self') \<Rightarrow>
               strategy_wrapper w' self' opponent proposed_action)
      | Some _ \<Rightarrow> Inl TypeError)"

text \<open>\<open>if name_prefix:\<close> holds for a string that is neither \<open>None\<close> nor empty.\<close>

fun truthy :: "string option \<Rightarrow> bool" where
  "truthy None = False"
| "truthy (Some s) = (s \<noteq> [])"

text \<open>
  \<open>decorate(PlayerClass, name_prefix)\<close>. Reading \<open>PlayerClass.name\<close> raises when no
  class of the chain has it; \<open>name_prefix + ' ' + PlayerClass.name\<close> raises when it is
  not a string. The new class has \<open>PlayerClass\<close> as its only base and the two entries
  \<open>name\<close> and \<open>strategy\<close> in its dictionary.
\<close>

definition decorate :: "wrapper \<Rightarrow> pyclass \<Rightarrow> string option \<Rightarrow> py_error + pyclass" where
  "decorate strategy_wrapper PlayerClass name_prefix =
     (case class_getattr PlayerClass ''name'' of
        Inl e \<Rightarrow> Inl e
      | Inr name \<Rightarrow>
          (case (if truthy name_prefix then name_prefix else None) of
             None \<Rightarrow>
               Inr (PyClass (cls_name PlayerClass) (Some PlayerClass)
                      [''name'' \<mapsto> name,
                       ''strategy'' \<mapsto> Function_attr (strategy PlayerClass strategy_wrapper)])
           | Some prefix \<Rightarrow>
               (case name of
                  Str_attr base_name \<Rightarrow>
                    Inr (PyClass (prefix @ cls_name PlayerClass) (Some PlayerClass)
                           [''name'' \<mapsto> Str_attr (prefix @ '' '' @ base_name),
                            ''strategy'' \<mapsto>
                              Function_attr (strategy PlayerClass strategy_wrapper)])
                | _ \<Rightarrow> Inl TypeError)))"

text \<open>
  \<open>StrategyTransformerFactory\<close> returns \<open>decorate\<close> with the wrapper and the prefix
  bound. (\<open>wrapper_kwargs\<close> is empty in every transformer of the module.)
\<close>

definition StrategyTransformerFactory ::
  "wrapper \<Rightarrow> string option \<Rightarrow> pyclass \<Rightarrow> py_error + pyclass" where
  "StrategyTransformerFactory strategy_wrapper name_prefix =
     (\<lambda>PlayerClass. decorate strategy_wrapper PlayerClass name_prefix)"

section \<open>The wrappers and their transformers\<close>

definition flip_wrapper :: wrapper where
  "flip_wrapper w player opponent action = Inr (flip_action action, w, player)"

definition FlipTransformer :: "pyclass \<Rightarrow> py_error + pyclass" where
  "FlipTransformer = StrategyTransformerFactory flip_wrapper (Some ''Flipped'')"

definition noisy_wrapper :: "world \<Rightarrow> player \<Rightarrow> player \<Rightarrow> action \<Rightarrow> real \<Rightarrow> outcome" where
  "noisy_wrapper w player opponent action noise =
     (case random_random w of
        (r, w') \<Rightarrow>
          if r < noise then Inr (flip_action action, w', player)
          else Inr (action, w', player))"

definition NoisyTransformer :: "real \<Rightarrow> pyclass \<Rightarrow> py_error + pyclass" where
  "NoisyTransformer noise =
     StrategyTransformerFactory (\<lambda>w player opponent action.
        noisy_wrapper w player opponent action noise) (Some ''Noisy'')"




definition final_sequence ::
  "world \<Rightarrow> player \<Rightarrow> player \<Rightarrow> action \<Rightarrow> action list \<Rightarrow> outcome" where
  "final_sequence w player opponent action seq =
     (case tournament_attributes player ''length'' of
        None \<Rightarrow> Inl KeyError
      | Some len \<Rightarrow>
          if len < 0 then Inr (action, w, player)
          else
            (let index = len - int (length (history player))
             in if index \<le> int (length seq) then
                  (case py_getitem seq (- index) of
                     Inl e \<Rightarrow> Inl e
                   | Inr a \<Rightarrow> Inr (a, w, player))
                else Inr (action, w, player)))"


text \<open>
  \<open>RetaliationWrapper()\<close> allocates a new object with \<open>is_retaliating = False\<close> and
  returns its address. Addresses come from here only, so they are always inside the store.
\<close>

definition RetaliationWrapper_init :: "world \<Rightarrow> nat \<times> world" where
  "RetaliationWrapper_init w =
     (length (wrapper_objs w),
      w\<lparr>wrapper_objs := wrapper_objs w @ [\<lparr>is_retaliating = False\<rparr>]\<rparr>)"

definition set_is_retaliating :: "nat \<Rightarrow> bool \<Rightarrow> world \<Rightarrow> world" where
  "set_is_retaliating self b w =
     w\<lparr>wrapper_objs := (wrapper_objs w)[self := (wrapper_objs w ! self)\<lparr>is_retaliating := b\<rparr>]\<rparr>"

definition get_is_retaliating :: "nat \<Rightarrow> world \<Rightarrow> bool" where
  "get_is_retaliating self w = is_retaliating (wrapper_objs w ! self)"

text \<open>\<open>RetaliationWrapper.__call__\<close>; \<open>self\<close> is the address of the wrapper object.\<close>

definition RetaliationWrapper_call :: "nat \<Rightarrow> wrapper" where
  "RetaliationWrapper_call self w player opponent action =
     (if length (history player) = 0 then Inr (action, w, player)
      else
        (case py_getitem (history opponent) (- 1) of
           Inl e \<Rightarrow> Inl e
         | Inr last_move \<Rightarrow>
             (let w1 = (if last_move = D then set_is_retaliating self True w else w)
              in if get_is_retaliating self w1 then
                   (if last_move = C then Inr (C, set_is_retaliating self False w1, player)
                    else Inr (D, w1, player))
                 else Inr (action, w1, player))))"

text \<open>
  \<open>RetailiateUntilApologyTransformer(name_prefix)\<close> creates one wrapper object and
  hands the factory the bound method of that object.
\<close>

definition RetailiateUntilApologyTransformer ::
  "string option \<Rightarrow> world \<Rightarrow> (pyclass \<Rightarrow> py_error + pyclass) \<times> world" where
  "RetailiateUntilApologyTransformer name_prefix w =
     (case RetaliationWrapper_init w of
        (strategy_wrapper, w') \<Rightarrow>
          (StrategyTransformerFactory (RetaliationWrapper_call strategy_wrapper) name_prefix, w'))"



section \<open>Playing rounds\<close>


section \<open>Base classes and instances used as concrete inputs\<close>


definition Defector :: pyclass where
  "Defector = PyClass ''Defector'' None
     [''name'' \<mapsto> Str_attr ''Defector'',
      ''classifier'' \<mapsto> Other_attr 1,
      ''strategy'' \<mapsto> Staticmethod_attr (\<lambda>w opponent. Inr (D, w))]"

definition Strategyless :: pyclass where
  "Strategyless = PyClass ''Strategyless'' None [''name'' \<mapsto> Str_attr ''Strategyless'']"

definition world0 :: world where
  "world0 = \<lparr>wrapper_objs = [], rng_seq = (\<lambda>i. 1 / 2), rng_pos = 0\<rparr>"

text \<open>
  An instance in a match of the given length (\<open>-1\<close>: unknown) that has played the given
  moves and has no recorded history.
\<close>

definition player_in_match :: "int \<Rightarrow> action list \<Rightarrow> player" where
  "player_in_match len moves =
     \<lparr>history = moves, tournament_attributes = [''length'' \<mapsto> len], recorded_history = None\<rparr>"

definition new_player :: player where
  "new_player = player_in_match (- 1) []"

text \<open>
  One call \<open>RetailiateUntilApologyTransformer()\<close> in \<open>world0\<close>, and the class it derives
  from \<open>Defector\<close>. \<open>world_retaliating\<close> is \<open>world_RUA\<close> with the flag of the one
  wrapper object set.
\<close>

definition world_RUA :: world where
  "world_RUA = snd (RetailiateUntilApologyTransformer (Some ''RUA'') world0)"

definition RUADefector :: pyclass where
  "RUADefector = projr (fst (RetailiateUntilApologyTransformer (Some ''RUA'') world0) Defector)"

definition world_retaliating :: world where
  "world_retaliating = world_RUA\<lparr>wrapper_objs := [\<lparr>is_retaliating = True\<rparr>]\<rparr>"

section \<open>Properties used to state the theorems\<close>

text \<open>
  The base class has a callable \<open>strategy\<close> in its own dictionary, which is where the
  wrapped \<open>strategy\<close> looks it up.
\<close>

definition defines_strategy :: "pyclass \<Rightarrow> bool" where
  "defines_strategy cls =
     (case cls_dict cls ''strategy'' of
        Some (Staticmethod_attr f) \<Rightarrow> True
      | Some (Function_attr g) \<Rightarrow> True
      | _ \<Rightarrow> False)"


section \<open>Facts about the factory\<close>

lemma strategy_via_decide:
  assumes "defines_strategy base"
  shows "strategy base sw w p opp =
           (case decide base w p opp of Inl e \<Rightarrow> Inl e | Inr (a, w', p') \<Rightarrow> sw w' p' opp a)"
proof (cases base)
  case (PyClass n b d)
  with assms show ?thesis
    by (auto simp: defines_strategy_def strategy_def decide_def
             split: option.splits attr.splits sum.splits)
qed

lemma decorate_decide:
  assumes "decorate sw base np = Inr cls"
  shows "decide cls w p opp = strategy base sw w p opp"
  using assms
  by (auto simp: decorate_def decide_def split: sum.splits option.splits attr.splits if_splits)


lemma decorate_succeeds_Str:
  assumes "class_getattr base ''name'' = Inr (Str_attr nm)"
  shows "\<exists>cls. decorate sw base np = Inr cls"
  using assms by (simp add: decorate_def split: option.splits)



lemma decorate_derived:
  assumes "defines_strategy base" and "decorate sw base np = Inr cls"
  shows "decide cls w p opp =
           (case decide base w p opp of Inl e \<Rightarrow> Inl e | Inr (a, w', p') \<Rightarrow> sw w' p' opp a)"
  using assms by (simp add: decorate_decide strategy_via_decide)


lemma Defector_facts:
  "defines_strategy Defector"
  "class_getattr Defector ''name'' = Inr (Str_attr ''Defector'')"
  "decide Defector w p opp = Inr (D, w, p)"
  by (simp_all add: Defector_def defines_strategy_def decide_def)












section \<open>The claims\<close>

text \<open>
  C4. For every player, opponent and proposed action, and every draw \<open>r\<close> of
  \<open>random.random()\<close> with \<open>0 \<le> r < 1\<close>: the noisy wrapper with noise 0 returns the
  proposed action unchanged, and with noise 1 it returns \<open>flip_action\<close> of the proposed
  action. In both cases exactly one draw is consumed.
\<close>

theorem noisy_wrapper_noise_0_and_1:
  assumes "0 \<le> fst (random_random w)" and "fst (random_random w) < 1"
  shows "noisy_wrapper w player opponent action 0 = Inr (action, snd (random_random w), player)
       \<and> noisy_wrapper w player opponent action 1 =
           Inr (flip_action action, snd (random_random w), player)"
  using assms by (cases "random_random w") (simp add: noisy_wrapper_def)

theorem noisy_wrapper_noise_0_and_1_witness:
  "0 \<le> fst (random_random world0) \<and> fst (random_random world0) < 1
   \<and> noisy_wrapper world0 new_player new_player D 0 = Inr (D, world0\<lparr>rng_pos := 1\<rparr>, new_player)
   \<and> noisy_wrapper world0 new_player new_player D 1 = Inr (C, world0\<lparr>rng_pos := 1\<rparr>, new_player)"
proof -
  have r: "0 \<le> fst (random_random world0)" "fst (random_random world0) < 1"
    by (simp_all add: random_random_def world0_def)
  have s: "snd (random_random world0) = world0\<lparr>rng_pos := 1\<rparr>"
    by (simp add: random_random_def world0_def)
  show ?thesis
    using r noisy_wrapper_noise_0_and_1 [OF r, of new_player new_player D] by (simp add: s)
qed





text \<open>
  C10. When the known match length \<open>L\<close> is non-negative and the player has already
  played \<open>L\<close> rounds, the computed index is 0, \<open>seq[-0]\<close> is \<open>seq[0]\<close>, and
  \<open>final_sequence\<close> returns the first element of a non-empty \<open>seq\<close>, whatever
  the proposed action and the last element of \<open>seq\<close> are.
\<close>

theorem final_sequence_at_match_length:
  assumes "tournament_attributes player ''length'' = Some L" and "0 \<le> L"
    and "int (length (history player)) = L" and "seq \<noteq> []"
  shows "final_sequence w player opponent action seq = Inr (seq ! 0, w, player)"
  using assms by (simp add: final_sequence_def py_getitem_def)

theorem final_sequence_at_match_length_witness:
  "tournament_attributes (player_in_match 2 [C, C]) ''length'' = Some 2 \<and> (0::int) \<le> 2
   \<and> int (length (history (player_in_match 2 [C, C]))) = 2 \<and> [C, D] \<noteq> []
   \<and> final_sequence world0 (player_in_match 2 [C, C]) new_player D [C, D]
        = Inr (C, world0, player_in_match 2 [C, C])"
  using final_sequence_at_match_length [of "player_in_match 2 [C, C]" 2 "[C, D]" world0 new_player D]
  by (simp add: player_in_match_def)








text \<open>
  C2, as stated, fails: \<open>Strategyless\<close> has no \<open>strategy\<close>, neither of its own nor
  inherited, yet applying \<open>FlipTransformer\<close> to it raises nothing and returns a class;
  the error appears only when that class is asked to decide.
\<close>

theorem transformation_of_strategyless_counterexample:
  "class_getattr Strategyless ''strategy'' = Inl AttributeError
   \<and> \<not> isl (FlipTransformer Strategyless)
   \<and> decide (projr (FlipTransformer Strategyless)) world0 new_player new_player = Inl KeyError"
  by (simp add: FlipTransformer_def StrategyTransformerFactory_def decorate_def
        Strategyless_def decide_def strategy_def)

text \<open>
  C2, amended. For every base agent type that has a string \<open>name\<close> but no \<open>strategy\<close>
  in its own dictionary, every wrapper and every prefix, applying the transformation raises
  nothing and returns a derived type; the failure is deferred to decision time, where every
  \<open>decide\<close> call on the derived type raises \<open>KeyError\<close>, so the derived type never
  behaves as a pass-through.
\<close>

theorem transformation_of_strategyless_base:
  assumes "cls_dict base ''strategy'' = None"
    and "class_getattr base ''name'' = Inr (Str_attr nm)"
  shows "\<exists>cls. StrategyTransformerFactory sw name_prefix base = Inr cls
           \<and> (\<forall>w p opp. decide cls w p opp = Inl KeyError)"
proof -
  obtain cls where cls: "decorate sw base name_prefix = Inr cls"
    using decorate_succeeds_Str [OF assms(2)] by blast
  have "decide cls w p opp = Inl KeyError" for w p opp
    using decorate_decide [OF cls, of w p opp] assms(1) by (simp add: strategy_def)
  then show ?thesis
    using cls by (simp add: StrategyTransformerFactory_def)
qed

theorem transformation_of_strategyless_base_witness:
  "cls_dict Strategyless ''strategy'' = None
   \<and> class_getattr Strategyless ''name'' = Inr (Str_attr ''Strategyless'')
   \<and> StrategyTransformerFactory flip_wrapper (Some ''Flipped'') Strategyless
        = Inr (projr (StrategyTransformerFactory flip_wrapper (Some ''Flipped'') Strategyless))
   \<and> decide (projr (StrategyTransformerFactory flip_wrapper (Some ''Flipped'') Strategyless))
        world0 new_player new_player = Inl KeyError"
proof -
  have s: "cls_dict Strategyless ''strategy'' = None"
    and n: "class_getattr Strategyless ''name'' = Inr (Str_attr ''Strategyless'')"
    by (simp_all add: Strategyless_def)
  obtain cls where
    cls: "StrategyTransformerFactory flip_wrapper (Some ''Flipped'') Strategyless = Inr cls"
    and k: "\<forall>w p opp. decide cls w p opp = Inl KeyError"
    using transformation_of_strategyless_base [OF s n] by blast
  show ?thesis
    using s n k by (simp add: cls)
qed



text \<open>
  C1. Two instances of the class that one \<open>RetailiateUntilApologyTransformer()\<close> derives
  from \<open>Defector\<close> reach the same \<open>RetaliationWrapper\<close> object. The second instance
  has played two rounds against an opponent who only cooperated; decided on its own, it
  returns its baseline Defect and the flag stays unset. A decision of the first instance,
  whose opponent has just defected, sets the flag; decided after that, the second instance
  returns Cooperate instead, although its own opponent never defected, and unsets the flag.
\<close>

theorem retaliation_flag_shared_between_instances:
  "decide RUADefector world_RUA (player_in_match (- 1) [D, D]) (player_in_match (- 1) [C, C])
     = Inr (D, world_RUA, player_in_match (- 1) [D, D])
   \<and> decide RUADefector world_RUA (player_in_match (- 1) [D]) (player_in_match (- 1) [D])
     = Inr (D, world_retaliating, player_in_match (- 1) [D])
   \<and> decide RUADefector world_retaliating (player_in_match (- 1) [D, D])
       (player_in_match (- 1) [C, C])
     = Inr (C, world_RUA, player_in_match (- 1) [D, D])
   \<and> get_is_retaliating 0 world_RUA = False
   \<and> get_is_retaliating 0 world_retaliating = True"
proof -
  have w: "world_RUA = world0\<lparr>wrapper_objs := [\<lparr>is_retaliating = False\<rparr>]\<rparr>"
    by (simp add: world_RUA_def RetailiateUntilApologyTransformer_def
          RetaliationWrapper_init_def world0_def)
  have c: "RUADefector = projr (decorate (RetaliationWrapper_call 0) Defector (Some ''RUA''))"
    by (simp add: RUADefector_def RetailiateUntilApologyTransformer_def
          RetaliationWrapper_init_def world0_def StrategyTransformerFactory_def)
  obtain cls where cls: "decorate (RetaliationWrapper_call 0) Defector (Some ''RUA'') = Inr cls"
    using decorate_succeeds_Str [OF Defector_facts(2)] by blast
  have d: "decide RUADefector w' p opp = RetaliationWrapper_call 0 w' p opp D" for w' p opp
    using decorate_derived [OF Defector_facts(1) cls, of w' p opp]
    by (simp add: c cls Defector_facts(3))
  show ?thesis
    by (simp add: d w world_retaliating_def RetaliationWrapper_call_def py_getitem_def
          get_is_retaliating_def set_is_retaliating_def player_in_match_def world0_def)
qed



end
